theory Spec2Isabelle
  imports Main "HOL-Library.AList"
begin

section \<open>Python text\<close>

text \<open>
  A Python \<open>str\<close> is a sequence of Unicode code points, so it is modelled as a list of
  natural numbers; \<open>len\<close> is \<open>length\<close>. \<open>ascii\<close> turns an Isabelle string literal
  into such a text.
\<close>

type_synonym pystr = "nat list"

definition ascii :: "string \<Rightarrow> pystr" where
  "ascii s = map of_char s"

text \<open>
  \<open>str.lower\<close>, on the code points below 256: the letters A to Z and the Latin-1
  capitals (all of 0xC0 to 0xDE but the multiplication sign 0xD7) move up by 32. The
  case tables for higher code points are not modelled: such a character is kept.
\<close>

definition lower_cp :: "nat \<Rightarrow> nat" where
  "lower_cp c = (if (65 \<le> c \<and> c \<le> 90) \<or> (192 \<le> c \<and> c \<le> 222 \<and> c \<noteq> 215) then c + 32 else c)"

definition lower :: "pystr \<Rightarrow> pystr" where
  "lower s = map lower_cp s"

text \<open>\<open>str(n)\<close> for an integer: decimal digits, with a minus sign when negative.\<close>

fun digits :: "nat \<Rightarrow> pystr" where
  "digits n = (if n < 10 then [48 + n] else digits (n div 10) @ [48 + n mod 10])"

declare digits.simps [simp del]

definition str_int :: "int \<Rightarrow> pystr" where
  "str_int i = (if i < 0 then 45 # digits (nat (- i)) else digits (nat i))"

section \<open>The environment of the tools: random numbers and the clock\<close>

text \<open>
  \<open>random\<close> and \<open>datetime.now\<close> read state outside the program. The world holds the raw
  draws the generator will deliver and the clock readings, each as a sequence of which
  the first element is the next one; a read hands out element 0 and shifts the sequence.
  Times are microseconds since the epoch.
\<close>

record world =
  draws :: "nat \<Rightarrow> nat"
  ticks :: "nat \<Rightarrow> int"

datatype exn = ValueError pystr | IndexError pystr

text \<open>
  \<open>random.randint(a, b)\<close> returns an integer \<open>N\<close> with \<open>a \<le> N \<le> b\<close>, every one of
  them for some draw, and raises \<open>ValueError\<close> on an empty range.
\<close>

definition randint :: "int \<Rightarrow> int \<Rightarrow> world \<Rightarrow> (exn + int) \<times> world" where
  "randint a b w =
     (if b < a then (Inl (ValueError (ascii ''empty range for randrange()'')), w)
      else (Inr (a + int (draws w 0 mod nat (b - a + 1))), w\<lparr>draws := (\<lambda>n. draws w (Suc n))\<rparr>))"

definition datetime_now :: "world \<Rightarrow> int \<times> world" where
  "datetime_now w = (ticks w 0, w\<lparr>ticks := (\<lambda>n. ticks w (Suc n))\<rparr>)"

definition timedelta_days :: "int \<Rightarrow> int" where
  "timedelta_days d = d * 86400000000"

text \<open>\<open>xs[i]\<close> for a non-negative index: \<open>IndexError\<close> out of range.\<close>

definition py_index :: "'a list \<Rightarrow> nat \<Rightarrow> exn + 'a" where
  "py_index xs i = (if i < length xs then Inr (xs ! i) else Inl (IndexError (ascii ''list index out of range'')))"

section \<open>generate_sample_users\<close>

record user =
  uid :: int
  firstName :: pystr
  lastName :: pystr
  email :: pystr
  username :: pystr
  age :: int
  registeredAt :: pystr

text \<open>
  The returned dictionary is either \<open>{"error": msg}\<close> or
  \<open>{"users": users, "count": n}\<close>.
\<close>

datatype gen_result = Error_obj pystr | Users_obj "user list" int

text \<open>
  The body of the \<open>for\<close> loop for index \<open>i\<close>. The fields of the dictionary literal are
  evaluated in their written order, so the draws are taken in the order username, age,
  registration day, and the clock is read before the last of them. The rendering
  \<open>isoformat\<close> of a time is a parameter: calendar arithmetic is not modelled.
\<close>

definition make_user ::
  "(int \<Rightarrow> pystr) \<Rightarrow> pystr list \<Rightarrow> pystr list \<Rightarrow> pystr list \<Rightarrow> int \<Rightarrow> int \<Rightarrow> nat \<Rightarrow> world
     \<Rightarrow> exn + (user \<times> world)" where
  "make_user isoformat first_names last_names domains min_age max_age i w =
     (case py_index first_names i of Inl e \<Rightarrow> Inl e | Inr first \<Rightarrow>
      case py_index last_names (i mod length last_names) of Inl e \<Rightarrow> Inl e | Inr last_n \<Rightarrow>
      case py_index domains (i mod length domains) of Inl e \<Rightarrow> Inl e | Inr domain \<Rightarrow>
      let email = lower first @ ascii ''.'' @ lower last_n @ ascii ''@'' @ domain in
      case randint 100 999 w of (Inl e, _) \<Rightarrow> Inl e | (Inr suffix, w1) \<Rightarrow>
      case randint min_age max_age w1 of (Inl e, _) \<Rightarrow> Inl e | (Inr a, w2) \<Rightarrow>
      case datetime_now w2 of (now, w3) \<Rightarrow>
      case randint 1 365 w3 of (Inl e, _) \<Rightarrow> Inl e | (Inr days, w4) \<Rightarrow>
      Inr (\<lparr>uid = int i + 1, firstName = first, lastName = last_n, email = email,
             username = lower first @ str_int suffix, age = a,
             registeredAt = isoformat (now - timedelta_days days)\<rparr>, w4))"

text \<open>The loop \<open>for i in range(count)\<close>, over the list of indices still to visit.\<close>

fun users_loop ::
  "(int \<Rightarrow> pystr) \<Rightarrow> pystr list \<Rightarrow> pystr list \<Rightarrow> pystr list \<Rightarrow> int \<Rightarrow> int \<Rightarrow> nat list
     \<Rightarrow> user list \<Rightarrow> world \<Rightarrow> exn + (user list \<times> world)" where
  "users_loop isoformat first_names last_names domains min_age max_age [] users w = Inr (users, w)"
| "users_loop isoformat first_names last_names domains min_age max_age (i # is) users w =
     (case make_user isoformat first_names last_names domains min_age max_age i w of
        Inl e \<Rightarrow> Inl e
      | Inr (u, w') \<Rightarrow>
          users_loop isoformat first_names last_names domains min_age max_age is (users @ [u]) w')"

definition generate_sample_users ::
  "(int \<Rightarrow> pystr) \<Rightarrow> pystr list \<Rightarrow> pystr list \<Rightarrow> pystr list \<Rightarrow> int \<Rightarrow> int \<Rightarrow> world
     \<Rightarrow> exn + (gen_result \<times> world)" where
  "generate_sample_users isoformat first_names last_names domains min_age max_age w =
     (if first_names = [] then Inr (Error_obj (ascii ''first_names list cannot be empty''), w)
      else if last_names = [] then Inr (Error_obj (ascii ''last_names list cannot be empty''), w)
      else if domains = [] then Inr (Error_obj (ascii ''domains list cannot be empty''), w)
      else if min_age > max_age then
        Inr (Error_obj (ascii ''min_age ('' @ str_int min_age
               @ ascii '') cannot be greater than max_age ('' @ str_int max_age @ ascii '')''), w)
      else if min_age < 0 \<or> max_age < 0 then Inr (Error_obj (ascii ''ages must be non-negative''), w)
      else
        let count = length first_names in
        case users_loop isoformat first_names last_names domains min_age max_age [0..<count] [] w of
          Inl e \<Rightarrow> Inl e
        | Inr (users, w') \<Rightarrow> Inr (Users_obj users (int (length users)), w'))"

section \<open>JSON values and the \<open>json\<close> module\<close>

text \<open>
  What \<open>json.loads\<close> returns and \<open>json.dumps\<close> takes. A dictionary is a list of
  pairs in insertion order, its keys strings. An integer is held as its value. A number
  with a fraction or an exponent is held as its text: Python holds the double that the
  text denotes and prints it with \<open>float.__repr__\<close>, so the model is exact on the texts
  that \<open>float.__repr__\<close> produces and keeps any other text as it was read.
\<close>

datatype json =
    JNull
  | JBool bool
  | JInt int
  | JFloat pystr
  | JString pystr
  | JArray "json list"
  | JObject "(pystr \<times> json) list"

subsection \<open>Serialisation: \<open>json.dumps\<close> and \<open>json.dump\<close>\<close>

record dump_opts =
  indent :: "nat option"
  ensure_ascii :: bool

definition hexdigit :: "nat \<Rightarrow> nat" where
  "hexdigit d = (if d < 10 then 48 + d else 87 + d)"

definition hex4 :: "nat \<Rightarrow> pystr" where
  "hex4 n = [hexdigit (n div 4096 mod 16), hexdigit (n div 256 mod 16),
             hexdigit (n div 16 mod 16), hexdigit (n mod 16)]"

definition uescape :: "nat \<Rightarrow> pystr" where
  "uescape n = 92 # 117 # hex4 n"

text \<open>
  One character of a string. The quote, the backslash and the control characters are
  always escaped; with \<open>ensure_ascii\<close> so is everything beyond \<open>~\<close>, a code
  point past 0xFFFF as a surrogate pair.
\<close>

definition escape_char :: "bool \<Rightarrow> nat \<Rightarrow> pystr" where
  "escape_char ea c =
     (if c = 34 then [92, 34]
      else if c = 92 then [92, 92]
      else if c = 10 then [92, 110]
      else if c = 13 then [92, 114]
      else if c = 9 then [92, 116]
      else if c = 12 then [92, 102]
      else if c = 8 then [92, 98]
      else if c < 32 then uescape c
      else if ea \<and> 126 < c then
        (if c < 65536 then uescape c
         else uescape (55296 + (c - 65536) div 1024 mod 1024) @ uescape (56320 + (c - 65536) mod 1024))
      else [c])"

definition encode_string :: "bool \<Rightarrow> pystr \<Rightarrow> pystr" where
  "encode_string ea s = 34 # concat (map (escape_char ea) s) @ [34]"

definition newline_indent :: "nat \<Rightarrow> nat \<Rightarrow> pystr" where
  "newline_indent k level = 10 # replicate (k * level) 32"

text \<open>
  The separator between two items: \<open>", "\<close> without indentation, a comma and a line
  break with it. \<open>level\<close> is the nesting level of the items.
\<close>

definition item_separator :: "dump_opts \<Rightarrow> nat \<Rightarrow> pystr" where
  "item_separator opts level =
     (case indent opts of None \<Rightarrow> [44, 32] | Some k \<Rightarrow> 44 # newline_indent k level)"

definition open_items :: "dump_opts \<Rightarrow> nat \<Rightarrow> pystr" where
  "open_items opts level = (case indent opts of None \<Rightarrow> [] | Some k \<Rightarrow> newline_indent k (Suc level))"

definition close_items :: "dump_opts \<Rightarrow> nat \<Rightarrow> pystr" where
  "close_items opts level = (case indent opts of None \<Rightarrow> [] | Some k \<Rightarrow> newline_indent k level)"

text \<open>
  \<open>encode opts level v\<close> is the text of \<open>v\<close> at nesting level \<open>level\<close>;
  \<open>encode_rest\<close> and \<open>encode_pairs\<close> are the items after the first, each behind its
  separator.
\<close>

fun encode :: "dump_opts \<Rightarrow> nat \<Rightarrow> json \<Rightarrow> pystr"
  and encode_rest :: "dump_opts \<Rightarrow> nat \<Rightarrow> json list \<Rightarrow> pystr"
  and encode_pairs :: "dump_opts \<Rightarrow> nat \<Rightarrow> (pystr \<times> json) list \<Rightarrow> pystr" where
  "encode opts level JNull = ascii ''null''"
| "encode opts level (JBool b) = (if b then ascii ''true'' else ascii ''false'')"
| "encode opts level (JInt i) = str_int i"
| "encode opts level (JFloat l) = l"
| "encode opts level (JString s) = encode_string (ensure_ascii opts) s"
| "encode opts level (JArray []) = [91, 93]"
| "encode opts level (JArray (v # vs)) =
     91 # open_items opts level @ encode opts (Suc level) v @ encode_rest opts (Suc level) vs
        @ close_items opts level @ [93]"
| "encode opts level (JObject []) = [123, 125]"
| "encode opts level (JObject ((k, v) # kvs)) =
     123 # open_items opts level @ encode_string (ensure_ascii opts) k @ [58, 32]
        @ encode opts (Suc level) v @ encode_pairs opts (Suc level) kvs
        @ close_items opts level @ [125]"
| "encode_rest opts level [] = []"
| "encode_rest opts level (v # vs) =
     item_separator opts level @ encode opts level v @ encode_rest opts level vs"
| "encode_pairs opts level [] = []"
| "encode_pairs opts level ((k, v) # kvs) =
     item_separator opts level @ encode_string (ensure_ascii opts) k @ [58, 32]
        @ encode opts level v @ encode_pairs opts level kvs"

text \<open>
  \<open>json.dumps(obj)\<close> with the defaults, \<open>json.dumps(obj, indent=2)\<close>, and the text
  that \<open>json.dump(obj, f, indent=2, ensure_ascii=False)\<close> writes.
\<close>

definition json_dumps :: "json \<Rightarrow> pystr" where
  "json_dumps v = encode \<lparr>indent = None, ensure_ascii = True\<rparr> 0 v"

definition json_dumps_indent2 :: "json \<Rightarrow> pystr" where
  "json_dumps_indent2 v = encode \<lparr>indent = Some 2, ensure_ascii = True\<rparr> 0 v"

definition json_dump_indent2_raw :: "json \<Rightarrow> pystr" where
  "json_dump_indent2_raw v = encode \<lparr>indent = Some 2, ensure_ascii = False\<rparr> 0 v"

subsection \<open>Parsing: \<open>json.loads\<close>\<close>

text \<open>
  The decoder fails with \<open>JSONDecodeError(msg, doc, pos)\<close>; the error is kept with the
  part of the document that starts at \<open>pos\<close>. Nesting deeper than the interpreter
  allows ends in \<open>RecursionError\<close>; here that is running out of the fuel the scanner
  is started with.
\<close>

datatype decode_error = JSONDecodeError pystr pystr | RecursionError

definition is_ws :: "nat \<Rightarrow> bool" where
  "is_ws c \<longleftrightarrow> c = 32 \<or> c = 9 \<or> c = 10 \<or> c = 13"

definition skip_ws :: "pystr \<Rightarrow> pystr" where
  "skip_ws cs = dropWhile is_ws cs"

definition is_digit :: "nat \<Rightarrow> bool" where
  "is_digit c \<longleftrightarrow> 48 \<le> c \<and> c \<le> 57"

definition hexval :: "nat \<Rightarrow> nat option" where
  "hexval c =
     (if 48 \<le> c \<and> c \<le> 57 then Some (c - 48)
      else if 97 \<le> c \<and> c \<le> 102 then Some (c - 87)
      else if 65 \<le> c \<and> c \<le> 70 then Some (c - 55)
      else None)"

definition hex4_val :: "nat \<Rightarrow> nat \<Rightarrow> nat \<Rightarrow> nat \<Rightarrow> nat option" where
  "hex4_val h1 h2 h3 h4 =
     (case hexval h1 of None \<Rightarrow> None | Some a \<Rightarrow>
      case hexval h2 of None \<Rightarrow> None | Some b \<Rightarrow>
      case hexval h3 of None \<Rightarrow> None | Some c \<Rightarrow>
      case hexval h4 of None \<Rightarrow> None | Some d \<Rightarrow> Some (((a * 16 + b) * 16 + c) * 16 + d))"

text \<open>The character a one-letter escape stands for.\<close>

definition backslash :: "nat \<Rightarrow> nat option" where
  "backslash e =
     (if e = 34 then Some 34
      else if e = 92 then Some 92
      else if e = 47 then Some 47
      else if e = 98 then Some 8
      else if e = 102 then Some 12
      else if e = 110 then Some 10
      else if e = 114 then Some 13
      else if e = 116 then Some 9
      else None)"

text \<open>The decoder's messages that hold a backslash or a quote.\<close>

definition bad_unicode_escape :: pystr where
  "bad_unicode_escape = ascii ''Invalid '' @ 92 # ascii ''uXXXX escape''"

definition bad_escape :: pystr where
  "bad_escape = ascii ''Invalid '' @ 92 # ascii ''escape''"

definition expecting_colon :: pystr where
  "expecting_colon = ascii ''Expecting '' @ 39 # 58 # 39 # ascii '' delimiter''"

definition expecting_comma :: pystr where
  "expecting_comma = ascii ''Expecting '' @ 39 # 44 # 39 # ascii '' delimiter''"

definition expecting_key :: pystr where
  "expecting_key = ascii ''Expecting property name enclosed in double quotes''"

text \<open>
  \<open>scanstring begin cs acc\<close> reads a string body: \<open>cs\<close> is the input behind the
  opening quote, \<open>begin\<close> the input from that quote on (for the error position),
  \<open>acc\<close> the characters read so far. It returns the string and the input behind the
  closing quote. A high surrogate escape followed by a low surrogate escape is one code
  point.
\<close>

fun scanstring :: "pystr \<Rightarrow> pystr \<Rightarrow> pystr \<Rightarrow> decode_error + (pystr \<times> pystr)" where
  "scanstring begin [] acc = Inl (JSONDecodeError (ascii ''Unterminated string starting at'') begin)"
| "scanstring begin (c # cs) acc =
     (if c = 34 then Inr (acc, cs)
      else if c = 92 then
        (case cs of
           [] \<Rightarrow> Inl (JSONDecodeError (ascii ''Unterminated string starting at'') begin)
         | e # r \<Rightarrow>
             if e = 117 then
               (case r of
                  h1 # h2 # h3 # h4 # r1 \<Rightarrow>
                    (case hex4_val h1 h2 h3 h4 of
                       None \<Rightarrow> Inl (JSONDecodeError bad_unicode_escape (e # r))
                     | Some uni \<Rightarrow>
                         if 55296 \<le> uni \<and> uni \<le> 56319 then
                           (case r1 of
                              b # u # g1 # g2 # g3 # g4 # r2 \<Rightarrow>
                                if b = 92 \<and> u = 117 then
                                  (case hex4_val g1 g2 g3 g4 of
                                     None \<Rightarrow>
                                       Inl (JSONDecodeError bad_unicode_escape
                                              (u # g1 # g2 # g3 # g4 # r2))
                                   | Some uni2 \<Rightarrow>
                                       if 56320 \<le> uni2 \<and> uni2 \<le> 57343 then
                                         scanstring begin r2
                                           (acc @ [65536 + (uni - 55296) * 1024 + (uni2 - 56320)])
                                       else scanstring begin r1 (acc @ [uni]))
                                else scanstring begin r1 (acc @ [uni])
                            | _ \<Rightarrow> scanstring begin r1 (acc @ [uni]))
                         else scanstring begin r1 (acc @ [uni]))
                | _ \<Rightarrow> Inl (JSONDecodeError bad_unicode_escape (e # r)))
             else
               (case backslash e of
                  None \<Rightarrow> Inl (JSONDecodeError bad_escape (c # cs))
                | Some ch \<Rightarrow> scanstring begin r (acc @ [ch])))
      else if c < 32 then Inl (JSONDecodeError (ascii ''Invalid control character at'') (c # cs))
      else scanstring begin cs (acc @ [c]))"

text \<open>
  Numbers, by the decoder's pattern: an integer part (an optional minus, then \<open>0\<close> or a
  digit from 1 to 9 and more digits), an optional fraction, an optional exponent. Each
  matcher returns the text it matched and the input behind it.
\<close>

definition match_integer :: "pystr \<Rightarrow> (pystr \<times> pystr) option" where
  "match_integer cs =
     (let (sign, r) = (case cs of [] \<Rightarrow> ([], cs) | c # r' \<Rightarrow> if c = 45 then ([45], r') else ([], cs))
      in case r of
           [] \<Rightarrow> None
         | d # r' \<Rightarrow>
             if d = 48 then Some (sign @ [48], r')
             else if 49 \<le> d \<and> d \<le> 57 then
               Some (sign @ d # takeWhile is_digit r', dropWhile is_digit r')
             else None)"

definition match_frac :: "pystr \<Rightarrow> pystr \<times> pystr" where
  "match_frac cs =
     (case cs of
        c # d # r \<Rightarrow>
          if c = 46 \<and> is_digit d then (c # d # takeWhile is_digit r, dropWhile is_digit r)
          else ([], cs)
      | _ \<Rightarrow> ([], cs))"

definition match_exp :: "pystr \<Rightarrow> pystr \<times> pystr" where
  "match_exp cs =
     (case cs of
        [] \<Rightarrow> ([], cs)
      | e # r \<Rightarrow>
          if e = 101 \<or> e = 69 then
            (let (sign, r') = (case r of [] \<Rightarrow> ([], r)
                                | s # r'' \<Rightarrow> if s = 45 \<or> s = 43 then ([s], r'') else ([], r))
             in case r' of
                  [] \<Rightarrow> ([], cs)
                | d # r'' \<Rightarrow>
                    if is_digit d then (e # sign @ d # takeWhile is_digit r'', dropWhile is_digit r'')
                    else ([], cs))
          else ([], cs))"

text \<open>\<open>int(text)\<close> on the text of an integer part.\<close>

definition digits_val :: "pystr \<Rightarrow> nat" where
  "digits_val ds = foldl (\<lambda>a d. 10 * a + (d - 48)) 0 ds"

definition int_of_text :: "pystr \<Rightarrow> int" where
  "int_of_text t = (case t of [] \<Rightarrow> 0 | c # r \<Rightarrow> if c = 45 then - int (digits_val r) else int (digits_val t))"

definition match_number :: "pystr \<Rightarrow> (json \<times> pystr) option" where
  "match_number cs =
     (case match_integer cs of
        None \<Rightarrow> None
      | Some (integer, r1) \<Rightarrow>
          (case match_frac r1 of (frac, r2) \<Rightarrow>
           case match_exp r2 of (exp, r3) \<Rightarrow>
             if frac = [] \<and> exp = [] then Some (JInt (int_of_text integer), r3)
             else Some (JFloat (integer @ frac @ exp), r3)))"

text \<open>
  \<open>dict(pairs)\<close>: a key that comes again keeps its place and takes the later value.
\<close>

definition dict_of :: "(pystr \<times> json) list \<Rightarrow> (pystr \<times> json) list" where
  "dict_of pairs = foldl (\<lambda>d (k, v). AList.update k v d) [] pairs"

text \<open>
  The scanner. \<open>scan_once\<close> reads one value at the head of the input;
  \<open>JSONObject\<close> is entered at the opening quote of a key with the pairs read so far,
  \<open>JSONArray\<close> at an item with the items read so far. The first argument is the fuel.
\<close>

fun scan_once :: "nat \<Rightarrow> pystr \<Rightarrow> decode_error + (json \<times> pystr)"
  and JSONObject :: "nat \<Rightarrow> pystr \<Rightarrow> (pystr \<times> json) list \<Rightarrow> decode_error + (json \<times> pystr)"
  and JSONArray :: "nat \<Rightarrow> pystr \<Rightarrow> json list \<Rightarrow> decode_error + (json \<times> pystr)" where
  "scan_once 0 cs = Inl RecursionError"
| "scan_once (Suc n) [] = Inl (JSONDecodeError (ascii ''Expecting value'') [])"
| "scan_once (Suc n) (c # cs) =
     (if c = 34 then
        (case scanstring (c # cs) cs [] of Inl e \<Rightarrow> Inl e | Inr (s, r) \<Rightarrow> Inr (JString s, r))
      else if c = 123 then
        (case skip_ws cs of
           [] \<Rightarrow> Inl (JSONDecodeError expecting_key [])
         | d # r \<Rightarrow>
             if d = 125 then Inr (JObject [], r)
             else if d = 34 then JSONObject n (d # r) []
             else Inl (JSONDecodeError expecting_key (d # r)))
      else if c = 91 then
        (case skip_ws cs of
           [] \<Rightarrow> JSONArray n [] []
         | d # r \<Rightarrow> if d = 93 then Inr (JArray [], r) else JSONArray n (d # r) [])
      else if c = 110 \<and> take 3 cs = ascii ''ull'' then Inr (JNull, drop 3 cs)
      else if c = 116 \<and> take 3 cs = ascii ''rue'' then Inr (JBool True, drop 3 cs)
      else if c = 102 \<and> take 4 cs = ascii ''alse'' then Inr (JBool False, drop 4 cs)
      else
        (case match_number (c # cs) of
           Some res \<Rightarrow> Inr res
         | None \<Rightarrow>
             if c = 78 \<and> take 2 cs = ascii ''aN'' then Inr (JFloat (ascii ''NaN''), drop 2 cs)
             else if c = 73 \<and> take 7 cs = ascii ''nfinity'' then Inr (JFloat (ascii ''Infinity''), drop 7 cs)
             else if c = 45 \<and> take 8 cs = ascii ''Infinity'' then Inr (JFloat (ascii ''-Infinity''), drop 8 cs)
             else Inl (JSONDecodeError (ascii ''Expecting value'') (c # cs))))"
| "JSONObject 0 cs pairs = Inl RecursionError"
| "JSONObject (Suc n) [] pairs =
     Inl (JSONDecodeError expecting_key [])"
| "JSONObject (Suc n) (q # cs) pairs =
     (case scanstring (q # cs) cs [] of
        Inl e \<Rightarrow> Inl e
      | Inr (key, r1) \<Rightarrow>
          (case skip_ws r1 of
             [] \<Rightarrow> Inl (JSONDecodeError expecting_colon [])
           | c # r2 \<Rightarrow>
               if c \<noteq> 58 then Inl (JSONDecodeError expecting_colon (c # r2))
               else
                 (case scan_once n (skip_ws r2) of
                    Inl e \<Rightarrow> Inl e
                  | Inr (v, r3) \<Rightarrow>
                      (case skip_ws r3 of
                         [] \<Rightarrow> Inl (JSONDecodeError expecting_comma [])
                       | c' # r4 \<Rightarrow>
                           if c' = 125 then Inr (JObject (dict_of (pairs @ [(key, v)])), r4)
                           else if c' \<noteq> 44 then
                             Inl (JSONDecodeError expecting_comma (c' # r4))
                           else
                             (case skip_ws r4 of
                                [] \<Rightarrow>
                                  Inl (JSONDecodeError
                                    expecting_key [])
                              | q' # r5 \<Rightarrow>
                                  if q' = 34 then JSONObject n (q' # r5) (pairs @ [(key, v)])
                                  else
                                    Inl (JSONDecodeError
                                      expecting_key
                                      (q' # r5)))))))"
| "JSONArray 0 cs items = Inl RecursionError"
| "JSONArray (Suc n) cs items =
     (case scan_once n cs of
        Inl e \<Rightarrow> Inl e
      | Inr (v, r1) \<Rightarrow>
          (case skip_ws r1 of
             [] \<Rightarrow> Inl (JSONDecodeError expecting_comma [])
           | c # r2 \<Rightarrow>
               if c = 93 then Inr (JArray (items @ [v]), r2)
               else if c \<noteq> 44 then Inl (JSONDecodeError expecting_comma (c # r2))
               else JSONArray n (skip_ws r2) (items @ [v])))"

text \<open>
  \<open>json.loads(s)\<close> for a \<open>str\<close>: no byte order mark, one value between optional
  white space, nothing behind it. The fuel given is more than the scanner can use on
  \<open>s\<close>.
\<close>

definition json_loads :: "pystr \<Rightarrow> decode_error + json" where
  "json_loads s =
     (if take 1 s = [65279] then
        Inl (JSONDecodeError (ascii ''Unexpected UTF-8 BOM (decode using utf-8-sig)'') s)
      else
        case scan_once (Suc (length s)) (skip_ws s) of
          Inl e \<Rightarrow> Inl e
        | Inr (v, r) \<Rightarrow>
            (case skip_ws r of [] \<Rightarrow> Inr v | c # r' \<Rightarrow> Inl (JSONDecodeError (ascii ''Extra data'') (c # r'))))"

text \<open>
  \<open>str(e)\<close> of a decoder error for the document \<open>doc\<close>: the message with the line,
  the column and the character position.
\<close>

definition decode_error_str :: "pystr \<Rightarrow> decode_error \<Rightarrow> pystr" where
  "decode_error_str doc e =
     (case e of
        RecursionError \<Rightarrow> ascii ''maximum recursion depth exceeded''
      | JSONDecodeError msg rest \<Rightarrow>
          (let pos = length doc - length rest;
               seen = take pos doc;
               lineno = length (filter (\<lambda>c. c = 10) seen) + 1;
               colno = length (takeWhile (\<lambda>c. c \<noteq> 10) (rev seen)) + 1
           in msg @ ascii '': line '' @ str_int (int lineno) @ ascii '' column '' @ str_int (int colno)
                @ ascii '' (char '' @ str_int (int pos) @ ascii '')''))"

section \<open>The file tools: write_json and read_json\<close>

text \<open>
  The file system, as far as the two tools see it. A path is absent, or holds a regular
  file with the text that reading it yields, or cannot be read: then \<open>open\<close> or
  \<open>read\<close> raises an exception other than \<open>FileNotFoundError\<close> (an \<open>OSError\<close>, a
  \<open>UnicodeDecodeError\<close>) with the given description. \<open>write_fault\<close> gives, for a
  path that cannot be opened for writing, the description of the \<open>OSError\<close>. A file
  that has been written is a regular file holding what was written; device files and
  files that may be written but not read are outside this model. What an interrupted
  write leaves in the file depends on the chunks \<open>json.dump\<close> hands over, which the
  model does not fix: \<open>torn\<close> maps the text that was to be written to what is left.
\<close>

datatype node = Regular pystr | Unreadable pystr

record fs =
  nodes :: "pystr \<rightharpoonup> node"
  write_fault :: "pystr \<rightharpoonup> pystr"
  torn :: "pystr \<Rightarrow> pystr"

text \<open>
  UTF-8 encodes every code point but the surrogates 0xD800 to 0xDFFF; writing one to a
  file opened with \<open>encoding="utf-8"\<close> raises \<open>UnicodeEncodeError\<close>.
\<close>

definition encodable :: "nat \<Rightarrow> bool" where
  "encodable c \<longleftrightarrow> \<not> (55296 \<le> c \<and> c \<le> 57343)"

definition encode_error_str :: pystr where
  "encode_error_str = 39 # ascii ''utf-8'' @ 39 # ascii '' codec can'' @ 39
       # ascii ''t encode character: surrogates not allowed''"

definition write_json :: "pystr \<Rightarrow> json \<Rightarrow> fs \<Rightarrow> pystr \<times> fs" where
  "write_json filepath dat f =
     (case write_fault f filepath of
        Some d \<Rightarrow> (ascii ''Error writing JSON: '' @ d, f)
      | None \<Rightarrow>
          (let payload = json_dump_indent2_raw dat in
           if list_all encodable payload then
             (ascii ''Successfully wrote JSON data to '' @ 39 # filepath @ 39 # ascii '' (''
                @ str_int (int (length (json_dumps dat))) @ ascii '' characters).'',
              f\<lparr>nodes := (nodes f)(filepath \<mapsto> Regular payload)\<rparr>)
           else
             (ascii ''Error writing JSON: '' @ encode_error_str,
              f\<lparr>nodes := (nodes f)(filepath \<mapsto> Regular (torn f payload))\<rparr>)))"

definition read_json :: "pystr \<Rightarrow> fs \<Rightarrow> pystr" where
  "read_json filepath f =
     (case nodes f filepath of
        None \<Rightarrow> ascii ''Error: File '' @ 39 # filepath @ 39 # ascii '' not found.''
      | Some (Unreadable d) \<Rightarrow> ascii ''Error reading JSON: '' @ d
      | Some (Regular txt) \<Rightarrow>
          (case json_loads txt of
             Inl RecursionError \<Rightarrow> ascii ''Error reading JSON: '' @ decode_error_str txt RecursionError
           | Inl (JSONDecodeError msg rest) \<Rightarrow>
               ascii ''Error: Invalid JSON in file - '' @ decode_error_str txt (JSONDecodeError msg rest)
           | Inr dat \<Rightarrow> json_dumps_indent2 dat))"

section \<open>The connection handler\<close>

datatype message = HumanMessage pystr | AIMessage pystr | ToolMessage pystr

fun content :: "message \<Rightarrow> pystr" where
  "content (HumanMessage t) = t"
| "content (AIMessage t) = t"
| "content (ToolMessage t) = t"

text \<open>
  The agent is outside the program. \<open>agent n msgs\<close> is what the \<open>n\<close>-th call of
  \<open>agent.invoke\<close> does when given the messages \<open>msgs\<close>: it raises an exception with
  a description, or returns a result whose \<open>"messages"\<close> entry is the given list.
\<close>

type_synonym agent = "nat \<Rightarrow> message list \<Rightarrow> pystr + message list"

text \<open>\<open>str.strip()\<close>: the characters \<open>str.isspace\<close> accepts are removed at both ends.\<close>

definition is_space :: "nat \<Rightarrow> bool" where
  "is_space c \<longleftrightarrow> (9 \<le> c \<and> c \<le> 13) \<or> (28 \<le> c \<and> c \<le> 32) \<or> c = 133 \<or> c = 160 \<or> c = 5760
     \<or> (8192 \<le> c \<and> c \<le> 8202) \<or> c = 8232 \<or> c = 8233 \<or> c = 8239 \<or> c = 8287 \<or> c = 12288"

definition strip :: "pystr \<Rightarrow> pystr" where
  "strip s = rev (dropWhile is_space (rev (dropWhile is_space s)))"

text \<open>
  Calling a method a value does not have raises \<open>AttributeError\<close>; only a dictionary
  has \<open>get\<close> and only a string has \<open>strip\<close>.
\<close>

fun type_name :: "json \<Rightarrow> pystr" where
  "type_name JNull = ascii ''NoneType''"
| "type_name (JBool b) = ascii ''bool''"
| "type_name (JInt i) = ascii ''int''"
| "type_name (JFloat l) = ascii ''float''"
| "type_name (JString s) = ascii ''str''"
| "type_name (JArray vs) = ascii ''list''"
| "type_name (JObject kvs) = ascii ''dict''"

definition attribute_error :: "json \<Rightarrow> pystr \<Rightarrow> pystr" where
  "attribute_error v attr =
     39 # type_name v @ 39 # ascii '' object has no attribute '' @ 39 # attr @ [39]"

text \<open>\<open>data.get("text", "")\<close> and \<open>.strip()\<close> on its result.\<close>

definition get_text :: "json \<Rightarrow> pystr + json" where
  "get_text dat =
     (case dat of
        JObject kvs \<Rightarrow> (case map_of kvs (ascii ''text'') of None \<Rightarrow> Inr (JString []) | Some v \<Rightarrow> Inr v)
      | _ \<Rightarrow> Inl (attribute_error dat (ascii ''get'')))"

definition strip_value :: "json \<Rightarrow> pystr + pystr" where
  "strip_value v = (case v of JString s \<Rightarrow> Inr (strip s) | _ \<Rightarrow> Inl (attribute_error v (ascii ''strip'')))"

text \<open>The three kinds of frame the handler sends, each the \<open>json.dumps\<close> of a dictionary.\<close>

definition envelope :: "pystr \<Rightarrow> pystr \<Rightarrow> pystr" where
  "envelope kind body = json_dumps (JObject [(ascii ''type'', JString kind), (ascii ''text'', JString body)])"

definition system_frame :: pystr where
  "system_frame = envelope (ascii ''system'') (ascii ''Connected to DataGen agent '' @ [128640])"

definition agent_frame :: "pystr \<Rightarrow> pystr" where
  "agent_frame reply = envelope (ascii ''agent'') reply"

definition error_frame :: "pystr \<Rightarrow> pystr" where
  "error_frame description = envelope (ascii ''error'') (ascii ''Server error: '' @ description)"

text \<open>
  A handler runs without interruption from one \<open>await\<close> to the next (the agent call is
  an ordinary blocking call), so its state between steps is the \<open>await\<close> it stands at:
  not yet started; sending the system frame (line 120); waiting for the next message
  (line 121); sending the agent's reply (line 139); sending an error frame (line 142);
  finished, behind the \<open>finally\<close>.
\<close>

datatype phase = Idle | Greeting | Receiving | Replying pystr | Reporting pystr | Finished

text \<open>
  What the environment does to the handler of one socket: the server calls it for a new
  connection; a message arrives; the message stream ends (it stops, or raises because
  the connection broke); a pending \<open>send\<close> completes; a pending \<open>send\<close> raises an
  \<open>Exception\<close> with a description; the task is cancelled at its \<open>await\<close>
  (\<open>CancelledError\<close>, which is no \<open>Exception\<close>).
\<close>

datatype event = Connect | Message pystr | Closed | Sent | Send_failed pystr | Cancelled

text \<open>
  The state of the server: the global dictionary \<open>CONNECTIONS\<close> and, for every socket,
  the program point of its handler, the handler's list \<open>history\<close>, and the frames
  delivered to the client; \<open>invocations\<close> lists the arguments of the agent calls
  made so far, by any handler. The entry of
  \<open>CONNECTIONS\<close> and the handler's \<open>history\<close> are one list object, so \<open>extend\<close>
  shows in both.
\<close>

record 'ws server =
  CONNECTIONS :: "'ws \<rightharpoonup> message list"
  phase :: "'ws \<Rightarrow> phase"
  history :: "'ws \<Rightarrow> message list"
  outbox :: "'ws \<Rightarrow> pystr list"
  invocations :: "message list list"

definition init_server :: "'ws server" where
  "init_server = \<lparr>CONNECTIONS = Map.empty, phase = (\<lambda>_. Idle), history = (\<lambda>_. []),
                   outbox = (\<lambda>_. []), invocations = []\<rparr>"

definition goto :: "'ws \<Rightarrow> phase \<Rightarrow> 'ws server \<Rightarrow> 'ws server" where
  "goto ws p s = s\<lparr>phase := (phase s)(ws := p)\<rparr>"

text \<open>The \<open>finally\<close> clause: \<open>CONNECTIONS.pop(websocket, None)\<close>, and the handler is over.\<close>

definition cleanup :: "'ws \<Rightarrow> 'ws server \<Rightarrow> 'ws server" where
  "cleanup ws s = goto ws Finished (s\<lparr>CONNECTIONS := (CONNECTIONS s)(ws := None)\<rparr>)"

text \<open>\<open>history.extend(turns)\<close>, on the one list that the handler and the dictionary share.\<close>

definition extend_history :: "'ws \<Rightarrow> message list \<Rightarrow> 'ws server \<Rightarrow> 'ws server" where
  "extend_history ws turns s =
     s\<lparr>history := (history s)(ws := history s ws @ turns),
       CONNECTIONS := (case CONNECTIONS s ws of
                         None \<Rightarrow> CONNECTIONS s
                       | Some _ \<Rightarrow> (CONNECTIONS s)(ws \<mapsto> history s ws @ turns))\<rparr>"

text \<open>
  The body of the loop for one message, up to its \<open>await\<close> (lines 122 to 142). Every
  exception raised in the \<open>try\<close> block lands in the \<open>except\<close> clause, which sends an
  error frame.
\<close>

definition on_message :: "agent \<Rightarrow> 'ws \<Rightarrow> pystr \<Rightarrow> 'ws server \<Rightarrow> 'ws server" where
  "on_message ag ws msg s =
     (case json_loads msg of
        Inl e \<Rightarrow> goto ws (Reporting (error_frame (decode_error_str msg e))) s
      | Inr dat \<Rightarrow>
     (case get_text dat of
        Inl e \<Rightarrow> goto ws (Reporting (error_frame e)) s
      | Inr v \<Rightarrow>
     (case strip_value v of
        Inl e \<Rightarrow> goto ws (Reporting (error_frame e)) s
      | Inr user_text \<Rightarrow>
          if user_text = [] then s
          else
            (let messages = history s ws @ [HumanMessage (user_text @ 10 # ascii '' /no_think'')];
                 s1 = s\<lparr>invocations := invocations s @ [messages]\<rparr>
             in
             case ag (length (invocations s)) messages of
               Inl ex \<Rightarrow> goto ws (Reporting (error_frame ex)) s1
             | Inr msgs \<Rightarrow>
                 (case py_index msgs (length msgs - 1) of
                    Inl ex \<Rightarrow> goto ws (Reporting (error_frame (ascii ''list index out of range''))) s1
                  | Inr ai_msg \<Rightarrow>
                      goto ws (Replying (agent_frame (content ai_msg)))
                        (extend_history ws [HumanMessage user_text, ai_msg] s1))))))"

definition deliver :: "'ws \<Rightarrow> pystr \<Rightarrow> 'ws server \<Rightarrow> 'ws server" where
  "deliver ws frame s = goto ws Receiving (s\<lparr>outbox := (outbox s)(ws := outbox s ws @ [frame])\<rparr>)"

text \<open>One step of the handler of socket \<open>ws\<close>. An event that does not fit the program point changes nothing.\<close>

definition handler_step :: "agent \<Rightarrow> 'ws \<Rightarrow> event \<Rightarrow> 'ws server \<Rightarrow> 'ws server" where
  "handler_step ag ws ev s =
     (case (phase s ws, ev) of
        (Idle, Connect) \<Rightarrow>
          goto ws Greeting (s\<lparr>history := (history s)(ws := []), CONNECTIONS := (CONNECTIONS s)(ws \<mapsto> [])\<rparr>)
      | (Greeting, Sent) \<Rightarrow> deliver ws system_frame s
      | (Greeting, Send_failed d) \<Rightarrow> cleanup ws s
      | (Greeting, Cancelled) \<Rightarrow> cleanup ws s
      | (Receiving, Message msg) \<Rightarrow> on_message ag ws msg s
      | (Receiving, Closed) \<Rightarrow> cleanup ws s
      | (Receiving, Cancelled) \<Rightarrow> cleanup ws s
      | (Replying frame, Sent) \<Rightarrow> deliver ws frame s
      | (Replying frame, Send_failed d) \<Rightarrow> goto ws (Reporting (error_frame d)) s
      | (Replying frame, Cancelled) \<Rightarrow> cleanup ws s
      | (Reporting frame, Sent) \<Rightarrow> deliver ws frame s
      | (Reporting frame, Send_failed d) \<Rightarrow> cleanup ws s
      | (Reporting frame, Cancelled) \<Rightarrow> cleanup ws s
      | _ \<Rightarrow> s)"

text \<open>A run of the server: the events of all sockets, interleaved in any order.\<close>

fun run :: "agent \<Rightarrow> ('ws \<times> event) list \<Rightarrow> 'ws server \<Rightarrow> 'ws server" where
  "run ag [] s = s"
| "run ag ((ws, ev) # evs) s = run ag evs (handler_step ag ws ev s)"

section \<open>Predicates used in the statements and proofs\<close>

text \<open>
  A connection is open while its handler stands between the registration in
  \<open>CONNECTIONS\<close> (line 118) and the \<open>finally\<close> clause.
\<close>

definition is_open :: "phase \<Rightarrow> bool" where
  "is_open p \<longleftrightarrow> p \<noteq> Idle \<and> p \<noteq> Finished"

text \<open>
  The number of steps of a run in which the entry of socket \<open>ws\<close> leaves
  \<open>CONNECTIONS\<close>.
\<close>

fun removals :: "agent \<Rightarrow> 'ws \<Rightarrow> ('ws \<times> event) list \<Rightarrow> 'ws server \<Rightarrow> nat" where
  "removals ag ws [] s = 0"
| "removals ag ws ((w, ev) # evs) s =
     (if ws \<in> dom (CONNECTIONS s) \<and> ws \<notin> dom (CONNECTIONS (handler_step ag w ev s)) then 1 else 0)
       + removals ag ws evs (handler_step ag w ev s)"

text \<open>
  The frames delivered on one socket are in order when the first of them, if any, is the
  system frame and none behind it is.
\<close>

definition greeted_once :: "pystr list \<Rightarrow> bool" where
  "greeted_once frames \<longleftrightarrow> frames = [] \<or> (hd frames = system_frame \<and> system_frame \<notin> set (tl frames))"

text \<open>A frame waiting to be sent by a handler in the loop is never the system frame.\<close>

fun pending_ok :: "phase \<Rightarrow> bool" where
  "pending_ok (Replying f) = (f \<noteq> system_frame)"
| "pending_ok (Reporting f) = (f \<noteq> system_frame)"
| "pending_ok p = True"

definition greeting_inv :: "'ws server \<Rightarrow> 'ws \<Rightarrow> bool" where
  "greeting_inv s ws \<longleftrightarrow>
     greeted_once (outbox s ws) \<and> pending_ok (phase s ws)
     \<and> ((phase s ws = Idle \<or> phase s ws = Greeting) \<longrightarrow> outbox s ws = [])
     \<and> (is_open (phase s ws) \<and> phase s ws \<noteq> Greeting \<longrightarrow> outbox s ws \<noteq> [])"

subsection \<open>For the round trip through the \<open>json\<close> module\<close>

text \<open>A code point that is no surrogate and lies in the Unicode range.\<close>

definition scalar :: "nat \<Rightarrow> bool" where
  "scalar c \<longleftrightarrow> c < 1114112 \<and> encodable c"

text \<open>
  What can stand behind a value in a text that \<open>encode\<close> produced: nothing, a comma, a
  closing bracket or brace, or a line break.
\<close>

definition delim :: "pystr \<Rightarrow> bool" where
  "delim rest \<longleftrightarrow> (case rest of [] \<Rightarrow> True | c # _ \<Rightarrow> c = 44 \<or> c = 93 \<or> c = 125 \<or> c = 10)"

text \<open>
  The text of a finite float, as \<open>float.__repr__\<close> gives it: the decoder reads all of
  it as one number with a fraction or an exponent.
\<close>

definition float_text :: "pystr \<Rightarrow> bool" where
  "float_text l \<longleftrightarrow> match_number l = Some (JFloat l, [])"

text \<open>
  \<open>wf_json ok v\<close>: \<open>v\<close> is a value that Python can hold and JSON can express. Every
  character of every string and key satisfies \<open>ok\<close>, the keys of each dictionary are
  distinct, and every float is a finite one.
\<close>

fun wf_json :: "(nat \<Rightarrow> bool) \<Rightarrow> json \<Rightarrow> bool"
  and wf_items :: "(nat \<Rightarrow> bool) \<Rightarrow> json list \<Rightarrow> bool"
  and wf_pairs :: "(nat \<Rightarrow> bool) \<Rightarrow> (pystr \<times> json) list \<Rightarrow> bool" where
  "wf_json ok JNull = True"
| "wf_json ok (JBool b) = True"
| "wf_json ok (JInt i) = True"
| "wf_json ok (JFloat l) = float_text l"
| "wf_json ok (JString s) = list_all ok s"
| "wf_json ok (JArray vs) = wf_items ok vs"
| "wf_json ok (JObject kvs) = (distinct (map fst kvs) \<and> wf_pairs ok kvs)"
| "wf_items ok [] = True"
| "wf_items ok (v # vs) = (wf_json ok v \<and> wf_items ok vs)"
| "wf_pairs ok [] = True"
| "wf_pairs ok ((k, v) # kvs) = (list_all ok k \<and> wf_json ok v \<and> wf_pairs ok kvs)"

text \<open>A Python string holds code points below 0x110000.\<close>

definition representable :: "json \<Rightarrow> bool" where
  "representable v \<longleftrightarrow> wf_json (\<lambda>c. c < 1114112) v"

text \<open>The fuel the scanner uses on the text of a value.\<close>

fun cost :: "json \<Rightarrow> nat"
  and cost_items :: "json list \<Rightarrow> nat"
  and cost_pairs :: "(pystr \<times> json) list \<Rightarrow> nat" where
  "cost (JArray vs) = Suc (cost_items vs)"
| "cost (JObject kvs) = Suc (cost_pairs kvs)"
| "cost v = 1"
| "cost_items [] = 0"
| "cost_items (v # vs) = Suc (cost v + cost_items vs)"
| "cost_pairs [] = 0"
| "cost_pairs ((k, v) # kvs) = Suc (cost v + cost_pairs kvs)"

text \<open>
  The part of \<open>JSONArray\<close> behind the item it has just read, and the part of
  \<open>JSONObject\<close> behind the value it has just read.
\<close>

definition array_tail :: "nat \<Rightarrow> pystr \<Rightarrow> json list \<Rightarrow> decode_error + (json \<times> pystr)" where
  "array_tail n r1 items =
     (case skip_ws r1 of
        [] \<Rightarrow> Inl (JSONDecodeError expecting_comma [])
      | c # r2 \<Rightarrow>
          if c = 93 then Inr (JArray items, r2)
          else if c \<noteq> 44 then Inl (JSONDecodeError expecting_comma (c # r2))
          else JSONArray n (skip_ws r2) items)"

definition object_tail :: "nat \<Rightarrow> pystr \<Rightarrow> (pystr \<times> json) list \<Rightarrow> decode_error + (json \<times> pystr)" where
  "object_tail n r3 pairs =
     (case skip_ws r3 of
        [] \<Rightarrow> Inl (JSONDecodeError expecting_comma [])
      | c' # r4 \<Rightarrow>
          if c' = 125 then Inr (JObject (dict_of pairs), r4)
          else if c' \<noteq> 44 then Inl (JSONDecodeError expecting_comma (c' # r4))
          else
            (case skip_ws r4 of
               [] \<Rightarrow> Inl (JSONDecodeError expecting_key [])
             | q' # r5 \<Rightarrow>
                 if q' = 34 then JSONObject n (q' # r5) pairs
                 else Inl (JSONDecodeError expecting_key (q' # r5))))"

text \<open>
  Two agents for the examples: one that always answers \<open>hello\<close>, and one whose first
  call fails and whose later calls answer.
\<close>

definition reply_agent :: agent where
  "reply_agent n msgs = Inr (msgs @ [AIMessage (ascii ''hello'')])"

definition flaky_agent :: agent where
  "flaky_agent n msgs = (if n = 0 then Inl (ascii ''upstream timeout'') else reply_agent n msgs)"


section \<open>generate_sample_users: the generated records\<close>







section \<open>generate_sample_users: rejected inputs\<close>

text \<open>
  C7. When a precondition is violated (an empty list of first names, last names or
  domains, \<open>min_age > max_age\<close>, a negative age), generate_sample_users raises nothing
  and returns \<open>{"error": msg}\<close>, where \<open>msg\<close> is the message of the first check
  that fails; the five messages are pairwise different.
\<close>

theorem generate_sample_users_invalid:
  assumes "first_names = [] \<or> last_names = [] \<or> domains = [] \<or> max_age < min_age
             \<or> min_age < 0 \<or> max_age < 0"
  shows "generate_sample_users fmt first_names last_names domains min_age max_age w
       = Inr (Error_obj
           (if first_names = [] then ascii ''first_names list cannot be empty''
            else if last_names = [] then ascii ''last_names list cannot be empty''
            else if domains = [] then ascii ''domains list cannot be empty''
            else if max_age < min_age then
              ascii ''min_age ('' @ str_int min_age @ ascii '') cannot be greater than max_age (''
                @ str_int max_age @ ascii '')''
            else ascii ''ages must be non-negative''), w)
     \<and> distinct [ascii ''first_names list cannot be empty'', ascii ''last_names list cannot be empty'',
          ascii ''domains list cannot be empty'',
          ascii ''min_age ('' @ str_int min_age @ ascii '') cannot be greater than max_age (''
                @ str_int max_age @ ascii '')'',
          ascii ''ages must be non-negative'']"
  using assms by (auto simp: generate_sample_users_def ascii_def)

theorem generate_sample_users_invalid_witness:
  "generate_sample_users str_int [] [ascii ''a''] [ascii ''b''] 1 2 \<lparr>draws = (\<lambda>n. n), ticks = (\<lambda>n. 0)\<rparr>
      = Inr (Error_obj (ascii ''first_names list cannot be empty''), \<lparr>draws = (\<lambda>n. n), ticks = (\<lambda>n. 0)\<rparr>)
   \<and> generate_sample_users str_int [ascii ''c''] [] [ascii ''b''] 1 2 \<lparr>draws = (\<lambda>n. n), ticks = (\<lambda>n. 0)\<rparr>
      = Inr (Error_obj (ascii ''last_names list cannot be empty''), \<lparr>draws = (\<lambda>n. n), ticks = (\<lambda>n. 0)\<rparr>)
   \<and> generate_sample_users str_int [ascii ''c''] [ascii ''a''] [] 1 2 \<lparr>draws = (\<lambda>n. n), ticks = (\<lambda>n. 0)\<rparr>
      = Inr (Error_obj (ascii ''domains list cannot be empty''), \<lparr>draws = (\<lambda>n. n), ticks = (\<lambda>n. 0)\<rparr>)
   \<and> generate_sample_users str_int [ascii ''c''] [ascii ''a''] [ascii ''b''] 5 3 \<lparr>draws = (\<lambda>n. n), ticks = (\<lambda>n. 0)\<rparr>
      = Inr (Error_obj (ascii ''min_age (5) cannot be greater than max_age (3)''), \<lparr>draws = (\<lambda>n. n), ticks = (\<lambda>n. 0)\<rparr>)
   \<and> generate_sample_users str_int [ascii ''c''] [ascii ''a''] [ascii ''b''] (- 2) 3 \<lparr>draws = (\<lambda>n. n), ticks = (\<lambda>n. 0)\<rparr>
      = Inr (Error_obj (ascii ''ages must be non-negative''), \<lparr>draws = (\<lambda>n. n), ticks = (\<lambda>n. 0)\<rparr>)"
  using generate_sample_users_invalid [of "[]" "[ascii ''a'']" "[ascii ''b'']" 2 1 str_int "\<lparr>draws = (\<lambda>n. n), ticks = (\<lambda>n. 0)\<rparr>"]
    generate_sample_users_invalid [of "[ascii ''c'']" "[]" "[ascii ''b'']" 2 1 str_int "\<lparr>draws = (\<lambda>n. n), ticks = (\<lambda>n. 0)\<rparr>"]
    generate_sample_users_invalid [of "[ascii ''c'']" "[ascii ''a'']" "[]" 2 1 str_int "\<lparr>draws = (\<lambda>n. n), ticks = (\<lambda>n. 0)\<rparr>"]
    generate_sample_users_invalid [of "[ascii ''c'']" "[ascii ''a'']" "[ascii ''b'']" 3 5 str_int "\<lparr>draws = (\<lambda>n. n), ticks = (\<lambda>n. 0)\<rparr>"]
    generate_sample_users_invalid [of "[ascii ''c'']" "[ascii ''a'']" "[ascii ''b'']" 3 "- 2" str_int "\<lparr>draws = (\<lambda>n. n), ticks = (\<lambda>n. 0)\<rparr>"]
  by (simp add: str_int_def digits.simps ascii_def)

section \<open>The handler: what the agent is shown and what is recorded\<close>

lemma on_message_valid:
  assumes "json_loads msg = Inr (JObject kvs)" and "map_of kvs (ascii ''text'') = Some (JString t)"
    and "strip t \<noteq> []"
  shows "on_message ag ws msg s =
     (let messages = history s ws @ [HumanMessage (strip t @ 10 # ascii '' /no_think'')];
          s1 = s\<lparr>invocations := invocations s @ [messages]\<rparr>
      in case ag (length (invocations s)) messages of
           Inl ex \<Rightarrow> goto ws (Reporting (error_frame ex)) s1
         | Inr msgs \<Rightarrow>
             if msgs = [] then goto ws (Reporting (error_frame (ascii ''list index out of range''))) s1
             else goto ws (Replying (agent_frame (content (last msgs))))
                    (extend_history ws [HumanMessage (strip t), last msgs] s1))"
  using assms
  by (auto simp: on_message_def get_text_def strip_value_def py_index_def Let_def last_conv_nth
           split: sum.splits)



lemma step_message: "phase s ws = Receiving \<Longrightarrow> handler_step ag ws (Message msg) s = on_message ag ws msg s"
  by (simp add: handler_step_def)

lemma step_sent_reporting: "phase s ws = Reporting f \<Longrightarrow> handler_step ag ws Sent s = deliver ws f s"
  by (simp add: handler_step_def)

lemma step_sent_replying: "phase s ws = Replying f \<Longrightarrow> handler_step ag ws Sent s = deliver ws f s"
  by (simp add: handler_step_def)

lemma goto_fields [simp]:
  "phase (goto ws p s) = (phase s)(ws := p)" "history (goto ws p s) = history s"
  "outbox (goto ws p s) = outbox s" "CONNECTIONS (goto ws p s) = CONNECTIONS s"
  "invocations (goto ws p s) = invocations s"
  by (simp_all add: goto_def)

lemma deliver_fields [simp]:
  "phase (deliver ws f s) = (phase s)(ws := Receiving)" "history (deliver ws f s) = history s"
  "outbox (deliver ws f s) = (outbox s)(ws := outbox s ws @ [f])" "CONNECTIONS (deliver ws f s) = CONNECTIONS s"
  "invocations (deliver ws f s) = invocations s"
  by (simp_all add: deliver_def)

lemma cleanup_fields [simp]:
  "phase (cleanup ws s) = (phase s)(ws := Finished)" "history (cleanup ws s) = history s"
  "outbox (cleanup ws s) = outbox s" "CONNECTIONS (cleanup ws s) = (CONNECTIONS s)(ws := None)"
  "invocations (cleanup ws s) = invocations s"
  by (simp_all add: cleanup_def)

lemma extend_history_fields [simp]:
  "phase (extend_history ws ts s) = phase s"
  "history (extend_history ws ts s) = (history s)(ws := history s ws @ ts)"
  "outbox (extend_history ws ts s) = outbox s"
  "invocations (extend_history ws ts s) = invocations s"
  "dom (CONNECTIONS (extend_history ws ts s)) = dom (CONNECTIONS s)"
  by (auto simp: extend_history_def split: option.splits)

text \<open>
  C10. For a message that parses to an object whose \<open>"text"\<close> is a string \<open>t\<close> not
  empty after trimming, the handler calls the agent with its history followed by a
  human message whose text is the trimmed \<open>t\<close> with \<open>"\n /no_think"\<close> appended; and
  when the agent succeeds, the user turn appended to the history holds the trimmed
  \<open>t\<close> alone, which is a different message.
\<close>

theorem agent_sees_suffix_history_does_not:
  assumes "phase s ws = Receiving"
    and "json_loads msg = Inr (JObject kvs)" and "map_of kvs (ascii ''text'') = Some (JString t)"
    and "strip t \<noteq> []"
  shows "invocations (handler_step ag ws (Message msg) s)
           = invocations s @ [history s ws @ [HumanMessage (strip t @ 10 # ascii '' /no_think'')]]
     \<and> (\<forall>msgs. ag (length (invocations s)) (history s ws @ [HumanMessage (strip t @ 10 # ascii '' /no_think'')]) = Inr msgs
            \<and> msgs \<noteq> [] \<longrightarrow>
          history (handler_step ag ws (Message msg) s) ws
            = history s ws @ [HumanMessage (strip t), last msgs])
     \<and> HumanMessage (strip t) \<noteq> HumanMessage (strip t @ 10 # ascii '' /no_think'')"
  using assms
  by (auto simp: step_message on_message_valid Let_def split: sum.splits)


theorem agent_sees_suffix_history_does_not_witness:
  \<open>invocations (handler_step reply_agent (0::nat) (Message (ascii ''{"text": " hi "}''))
       (run reply_agent [(0, Connect), (0, Sent)] init_server))
     = [[HumanMessage (ascii ''hi'' @ 10 # ascii '' /no_think'')]]
   \<and> history (handler_step reply_agent (0::nat) (Message (ascii ''{"text": " hi "}''))
       (run reply_agent [(0, Connect), (0, Sent)] init_server)) 0
     = [HumanMessage (ascii ''hi''), AIMessage (ascii ''hello'')]\<close>
proof -
  let ?s = "handler_step reply_agent (0::nat) Sent (handler_step reply_agent 0 Connect init_server)"
  let ?msg = \<open>ascii ''{"text": " hi "}''\<close>
  have s: "phase ?s 0 = Receiving" "history ?s 0 = []" "invocations ?s = []"
    by (simp_all add: handler_step_def init_server_def)
  have l: "json_loads ?msg = Inr (JObject [(ascii ''text'', JString (ascii '' hi ''))])"
    by (simp add: json_loads_def ascii_def skip_ws_def is_ws_def dict_of_def)
  have m: "map_of [(ascii ''text'', JString (ascii '' hi ''))] (ascii ''text'') = Some (JString (ascii '' hi ''))"
    by simp
  have t: "strip (ascii '' hi '') = ascii ''hi''"
    by (simp add: strip_def ascii_def is_space_def)
  then have ne: "strip (ascii '' hi '') \<noteq> []" by (simp add: ascii_def)
  have a: "reply_agent (length (invocations ?s)) (history ?s 0 @ [HumanMessage (strip (ascii '' hi '') @ 10 # ascii '' /no_think'')])
      = Inr ([HumanMessage (ascii ''hi'' @ 10 # ascii '' /no_think'')] @ [AIMessage (ascii ''hello'')])"
    unfolding s t by (simp add: reply_agent_def)
  from agent_sees_suffix_history_does_not [OF s(1) l m ne, of reply_agent] a
  show ?thesis unfolding s t by simp
qed

text \<open>
  C3. When the agent call raises for a valid message, the handler stands at the
  \<open>send\<close> of the frame \<open>{"type": "error", "text": "Server error: <description>"}\<close>
  with history, outbox and \<open>CONNECTIONS\<close> unchanged; once that send completes, exactly
  this one frame has been added to the outbox, the history is still unchanged, the
  entry in \<open>CONNECTIONS\<close> is still there and the handler waits for the next message;
  and a following valid message whose agent call succeeds is processed as usual: its
  two turns are appended and the agent frame is sent.
\<close>

theorem agent_failure_reported:
  assumes "phase s ws = Receiving"
    and "json_loads msg = Inr (JObject kvs)" and "map_of kvs (ascii ''text'') = Some (JString t)"
    and "strip t \<noteq> []"
    and "ag (length (invocations s)) (history s ws @ [HumanMessage (strip t @ 10 # ascii '' /no_think'')]) = Inl d"
  shows "phase (handler_step ag ws (Message msg) s) ws
           = Reporting (json_dumps (JObject [(ascii ''type'', JString (ascii ''error'')),
                                             (ascii ''text'', JString (ascii ''Server error: '' @ d))]))
     \<and> history (handler_step ag ws (Message msg) s) = history s
     \<and> outbox (handler_step ag ws (Message msg) s) = outbox s
     \<and> CONNECTIONS (handler_step ag ws (Message msg) s) = CONNECTIONS s
     \<and> outbox (handler_step ag ws Sent (handler_step ag ws (Message msg) s)) ws
           = outbox s ws @ [json_dumps (JObject [(ascii ''type'', JString (ascii ''error'')),
                                             (ascii ''text'', JString (ascii ''Server error: '' @ d))])]
     \<and> history (handler_step ag ws Sent (handler_step ag ws (Message msg) s)) = history s
     \<and> CONNECTIONS (handler_step ag ws Sent (handler_step ag ws (Message msg) s)) = CONNECTIONS s
     \<and> phase (handler_step ag ws Sent (handler_step ag ws (Message msg) s)) ws = Receiving
     \<and> (\<forall>msg' kvs' t' msgs.
           json_loads msg' = Inr (JObject kvs') \<and> map_of kvs' (ascii ''text'') = Some (JString t')
           \<and> strip t' \<noteq> []
           \<and> ag (Suc (length (invocations s))) (history s ws @ [HumanMessage (strip t' @ 10 # ascii '' /no_think'')]) = Inr msgs
           \<and> msgs \<noteq> [] \<longrightarrow>
           history (handler_step ag ws (Message msg') (handler_step ag ws Sent (handler_step ag ws (Message msg) s))) ws
              = history s ws @ [HumanMessage (strip t'), last msgs]
         \<and> phase (handler_step ag ws (Message msg') (handler_step ag ws Sent (handler_step ag ws (Message msg) s))) ws
              = Replying (json_dumps (JObject [(ascii ''type'', JString (ascii ''agent'')),
                                             (ascii ''text'', JString (content (last msgs)))])))"
proof -
  let ?e = "json_dumps (JObject [(ascii ''type'', JString (ascii ''error'')),
                                 (ascii ''text'', JString (ascii ''Server error: '' @ d))])"
  let ?s1 = "handler_step ag ws (Message msg) s"
  let ?s2 = "handler_step ag ws Sent ?s1"
  have s1: "?s1 = goto ws (Reporting ?e)
      (s\<lparr>invocations := invocations s @ [history s ws @ [HumanMessage (strip t @ 10 # ascii '' /no_think'')]]\<rparr>)"
    using assms by (simp add: step_message on_message_valid Let_def error_frame_def envelope_def)
  have h1: "phase ?s1 ws = Reporting ?e" "history ?s1 = history s" "outbox ?s1 = outbox s"
    "CONNECTIONS ?s1 = CONNECTIONS s"
    "invocations ?s1 = invocations s @ [history s ws @ [HumanMessage (strip t @ 10 # ascii '' /no_think'')]]"
    by (simp_all add: s1)
  have s2: "?s2 = deliver ws ?e ?s1" using h1(1) by (rule step_sent_reporting)
  have h2: "phase ?s2 ws = Receiving" "history ?s2 = history s" "outbox ?s2 ws = outbox s ws @ [?e]"
    "CONNECTIONS ?s2 = CONNECTIONS s"
    "invocations ?s2 = invocations s @ [history s ws @ [HumanMessage (strip t @ 10 # ascii '' /no_think'')]]"
    by (simp_all add: s2 h1)
  have next_ok: "history (handler_step ag ws (Message msg') ?s2) ws = history s ws @ [HumanMessage (strip t'), last msgs]
         \<and> phase (handler_step ag ws (Message msg') ?s2) ws
              = Replying (json_dumps (JObject [(ascii ''type'', JString (ascii ''agent'')),
                                             (ascii ''text'', JString (content (last msgs)))]))"
    if "json_loads msg' = Inr (JObject kvs')" "map_of kvs' (ascii ''text'') = Some (JString t')"
      "strip t' \<noteq> []"
      "ag (Suc (length (invocations s))) (history s ws @ [HumanMessage (strip t' @ 10 # ascii '' /no_think'')]) = Inr msgs"
      "msgs \<noteq> []" for msg' kvs' t' msgs
    using that by (simp add: step_message [OF h2(1)] on_message_valid h2 Let_def agent_frame_def envelope_def)
  from h1 h2 next_ok show ?thesis by blast
qed



lemma loads_hi: \<open>json_loads (ascii ''{"text":"hi"}'') = Inr (JObject [(ascii ''text'', JString (ascii ''hi''))])\<close>
  by (simp add: json_loads_def ascii_def skip_ws_def is_ws_def dict_of_def)

lemma strip_hi: "strip (ascii ''hi'') = ascii ''hi''"
  by (simp add: strip_def ascii_def is_space_def)

lemma step_connect:
  "phase s ws = Idle \<Longrightarrow> handler_step ag ws Connect s
     = goto ws Greeting (s\<lparr>history := (history s)(ws := []), CONNECTIONS := (CONNECTIONS s)(ws \<mapsto> [])\<rparr>)"
  by (simp add: handler_step_def)

lemma step_sent_greeting: "phase s ws = Greeting \<Longrightarrow> handler_step ag ws Sent s = deliver ws system_frame s"
  by (simp add: handler_step_def)

lemma greeted_run:
  "handler_step ag ws Sent (handler_step ag ws Connect init_server)
     = deliver ws system_frame (goto ws Greeting (init_server\<lparr>history := (history init_server)(ws := []),
          CONNECTIONS := (CONNECTIONS init_server)(ws \<mapsto> [])\<rparr>))"
proof -
  have i: "phase (init_server :: 'a server) ws = Idle" by (simp add: init_server_def)
  show ?thesis by (simp add: step_connect [OF i] step_sent_greeting)
qed

lemma greeted_state:
  "phase (handler_step ag ws Sent (handler_step ag ws Connect init_server)) ws = Receiving"
  "history (handler_step ag ws Sent (handler_step ag ws Connect init_server)) = (\<lambda>_. [])"
  "invocations (handler_step ag ws Sent (handler_step ag ws Connect init_server)) = []"
  "outbox (handler_step ag ws Sent (handler_step ag ws Connect init_server)) ws = [system_frame]"
  "CONNECTIONS (handler_step ag ws Sent (handler_step ag ws Connect init_server)) = [ws \<mapsto> []]"
  unfolding greeted_run by (simp_all add: init_server_def fun_eq_iff)

theorem agent_failure_reported_witness:
  \<open>outbox (run flaky_agent [(0::nat, Connect), (0, Sent), (0, Message (ascii ''{"text":"hi"}'')), (0, Sent)]
       init_server) 0
     = [system_frame, json_dumps (JObject [(ascii ''type'', JString (ascii ''error'')),
                          (ascii ''text'', JString (ascii ''Server error: upstream timeout''))])]
   \<and> history (run flaky_agent [(0::nat, Connect), (0, Sent), (0, Message (ascii ''{"text":"hi"}'')), (0, Sent)]
       init_server) 0 = []
   \<and> history (run flaky_agent [(0::nat, Connect), (0, Sent), (0, Message (ascii ''{"text":"hi"}'')), (0, Sent),
           (0, Message (ascii ''{"text":"hi"}''))] init_server) 0
     = [HumanMessage (ascii ''hi''), AIMessage (ascii ''hello'')]\<close>
proof -
  let ?s = "handler_step flaky_agent (0::nat) Sent (handler_step flaky_agent 0 Connect init_server)"
  let ?msg = \<open>ascii ''{"text":"hi"}''\<close>
  let ?arg = "[HumanMessage (ascii ''hi'' @ 10 # ascii '' /no_think'')]"
  have m: "map_of [(ascii ''text'', JString (ascii ''hi''))] (ascii ''text'') = Some (JString (ascii ''hi''))"
    by simp
  have ne: "strip (ascii ''hi'') \<noteq> []" unfolding strip_hi by (simp add: ascii_def)
  have a0: "flaky_agent (length (invocations ?s)) (history ?s 0 @ [HumanMessage (strip (ascii ''hi'') @ 10 # ascii '' /no_think'')])
      = Inl (ascii ''upstream timeout'')"
    by (simp add: greeted_state flaky_agent_def)
  have a1: "flaky_agent (Suc (length (invocations ?s))) (history ?s 0 @ [HumanMessage (strip (ascii ''hi'') @ 10 # ascii '' /no_think'')])
      = Inr (?arg @ [AIMessage (ascii ''hello'')])"
    by (simp add: greeted_state flaky_agent_def reply_agent_def strip_hi)
  note inst = agent_failure_reported [where ag = flaky_agent and d = "ascii ''upstream timeout''",
      OF greeted_state(1) [of flaky_agent 0] loads_hi m ne a0]
  from inst have ob: "outbox (handler_step flaky_agent 0 Sent (handler_step flaky_agent 0 (Message ?msg) ?s)) 0
      = outbox ?s 0 @ [json_dumps (JObject [(ascii ''type'', JString (ascii ''error'')),
                          (ascii ''text'', JString (ascii ''Server error: '' @ ascii ''upstream timeout''))])]"
    and hi: "history (handler_step flaky_agent 0 Sent (handler_step flaky_agent 0 (Message ?msg) ?s)) = history ?s"
    by blast+
  from inst loads_hi m ne a1
  have nx: "history (handler_step flaky_agent 0 (Message ?msg)
        (handler_step flaky_agent 0 Sent (handler_step flaky_agent 0 (Message ?msg) ?s))) 0
      = history ?s 0 @ [HumanMessage (strip (ascii ''hi'')), last (?arg @ [AIMessage (ascii ''hello'')])]"
    by blast
  have app: "ascii ''Server error: '' @ ascii ''upstream timeout'' = ascii ''Server error: upstream timeout''"
    by (simp add: ascii_def)
  from ob hi nx show ?thesis
    by (simp add: greeted_state strip_hi app)
qed

section \<open>Messages that are skipped and messages that are reported\<close>






lemma system_frame_eq:
  "system_frame = json_dumps (JObject [(ascii ''type'', JString (ascii ''system'')),
      (ascii ''text'', JString (ascii ''Connected to DataGen agent '' @ [128640]))])"
  by (simp add: system_frame_def envelope_def)

lemma envelope_prefix:
  "envelope kind body = ascii ''{\"type\": '' @ encode_string True kind @ ascii '', \"text\": ''
      @ encode_string True body @ ascii ''}''"
  by (simp add: envelope_def json_dumps_def open_items_def close_items_def item_separator_def
        encode_string_def escape_char_def ascii_def)

section \<open>The handler: greeting and session bookkeeping\<close>

lemma agent_frame_not_system: "agent_frame r \<noteq> system_frame"
  by (simp add: agent_frame_def system_frame_def envelope_prefix)
     (simp add: encode_string_def escape_char_def ascii_def)

lemma error_frame_not_system: "error_frame d \<noteq> system_frame"
  by (simp add: error_frame_def system_frame_def envelope_prefix)
     (simp add: encode_string_def escape_char_def ascii_def)

lemma on_message_outbox [simp]: "outbox (on_message ag ws msg s) = outbox s"
  by (auto simp: on_message_def Let_def split: sum.splits)

lemma on_message_dom [simp]: "dom (CONNECTIONS (on_message ag ws msg s)) = dom (CONNECTIONS s)"
  by (auto simp: on_message_def Let_def split: sum.splits)

lemma on_message_phase_other: "w \<noteq> ws \<Longrightarrow> phase (on_message ag ws msg s) w = phase s w"
  by (auto simp: on_message_def Let_def split: sum.splits)

lemma on_message_phase_self:
  "phase (on_message ag ws msg s) ws = phase s ws
     \<or> (\<exists>d. phase (on_message ag ws msg s) ws = Reporting (error_frame d))
     \<or> (\<exists>r. phase (on_message ag ws msg s) ws = Replying (agent_frame r))"
  by (auto simp: on_message_def Let_def split: sum.splits)

lemma step_other:
  assumes "w \<noteq> ws"
  shows "phase (handler_step ag ws ev s) w = phase s w"
    and "outbox (handler_step ag ws ev s) w = outbox s w"
  using assms
  by (cases "phase s ws"; cases ev; simp add: handler_step_def on_message_phase_other)+

lemma greeted_once_snoc:
  "greeted_once frames \<Longrightarrow> frames \<noteq> [] \<Longrightarrow> f \<noteq> system_frame \<Longrightarrow> greeted_once (frames @ [f])"
  by (cases frames) (auto simp: greeted_once_def)

lemma greeted_once_first: "greeted_once [system_frame]"
  by (simp add: greeted_once_def)

lemma greeted_once_Nil: "greeted_once []"
  by (simp add: greeted_once_def)

lemma step_greeting_inv:
  assumes "greeting_inv s w"
  shows "greeting_inv (handler_step ag ws ev s) w"
proof (cases "w = ws")
  case False
  with assms show ?thesis by (simp add: greeting_inv_def step_other)
next
  case True
  show ?thesis
  proof (cases "phase s ws = Receiving \<and> (\<exists>m. ev = Message m)")
    case True
    then obtain m where ev: "ev = Message m" and ph: "phase s ws = Receiving" by blast
    have st: "handler_step ag ws ev s = on_message ag ws m s"
      using ev ph by (simp add: handler_step_def)
    from assms \<open>w = ws\<close> ph have ne: "outbox s ws \<noteq> []" and g: "greeted_once (outbox s ws)"
      by (auto simp: greeting_inv_def is_open_def)
    from on_message_phase_self [of ag ws m s] ph
    have "pending_ok (phase (on_message ag ws m s) ws) \<and> is_open (phase (on_message ag ws m s) ws)
        \<and> phase (on_message ag ws m s) ws \<noteq> Greeting \<and> phase (on_message ag ws m s) ws \<noteq> Idle"
      by (auto simp: is_open_def agent_frame_not_system error_frame_not_system)
    with ne g \<open>w = ws\<close> show ?thesis
      by (simp add: st greeting_inv_def)
  next
    case False
    with assms \<open>w = ws\<close> show ?thesis
      by (cases "phase s ws"; cases ev;
          simp add: handler_step_def greeting_inv_def greeted_once_snoc greeted_once_first
            is_open_def error_frame_not_system)
  qed
qed

lemma run_greeting_inv: "greeting_inv s w \<Longrightarrow> greeting_inv (run ag evs s) w"
proof (induction evs arbitrary: s)
  case Nil
  then show ?case by simp
next
  case (Cons e evs)
  obtain ws ev where e: "e = (ws, ev)" by (cases e)
  from Cons.prems have "greeting_inv (handler_step ag ws ev s) w" by (rule step_greeting_inv)
  then have "greeting_inv (run ag evs (handler_step ag ws ev s)) w" by (rule Cons.IH)
  then show ?case by (simp add: e)
qed

lemma init_greeting_inv: "greeting_inv init_server w"
  by (simp add: greeting_inv_def init_server_def greeted_once_def is_open_def)


lemma step_conn_inv:
  assumes "dom (CONNECTIONS s) = {w. is_open (phase s w)}"
  shows "dom (CONNECTIONS (handler_step ag ws ev s)) = {w. is_open (phase (handler_step ag ws ev s) w)}"
proof (cases "phase s ws = Receiving \<and> (\<exists>m. ev = Message m)")
  case True
  then obtain m where ev: "ev = Message m" and ph: "phase s ws = Receiving" by blast
  have st: "handler_step ag ws ev s = on_message ag ws m s"
    using ev ph by (simp add: handler_step_def)
  have "is_open (phase (on_message ag ws m s) w) = is_open (phase s w)" for w
  proof (cases "w = ws")
    case True
    with on_message_phase_self [of ag ws m s] ph show ?thesis by (auto simp: is_open_def)
  next
    case False
    then show ?thesis by (simp add: on_message_phase_other)
  qed
  with assms show ?thesis by (simp add: st)
next
  case False
  with assms show ?thesis
    by (cases "phase s ws"; cases ev; auto simp: handler_step_def is_open_def split: if_splits)
qed

lemma run_conn_inv:
  "dom (CONNECTIONS s) = {w. is_open (phase s w)}
   \<Longrightarrow> dom (CONNECTIONS (run ag evs s)) = {w. is_open (phase (run ag evs s) w)}"
proof (induction evs arbitrary: s)
  case Nil
  then show ?case by simp
next
  case (Cons e evs)
  obtain ws ev where e: "e = (ws, ev)" by (cases e)
  from Cons.prems have "dom (CONNECTIONS (handler_step ag ws ev s)) = {w. is_open (phase (handler_step ag ws ev s) w)}"
    by (rule step_conn_inv)
  then show ?case unfolding e run.simps by (rule Cons.IH)
qed

lemma step_phase_finished: "phase s w = Finished \<Longrightarrow> phase (handler_step ag ws ev s) w = Finished"
proof (cases "w = ws")
  case True
  assume "phase s w = Finished"
  with True show ?thesis by (simp add: handler_step_def)
next
  case False
  assume "phase s w = Finished"
  with False show ?thesis by (simp add: step_other)
qed

lemma step_idle_not_finished: "phase s w = Idle \<Longrightarrow> phase (handler_step ag ws ev s) w \<noteq> Finished"
proof (cases "w = ws")
  case True
  assume "phase s w = Idle"
  with True show ?thesis by (cases ev; simp add: handler_step_def)
next
  case False
  assume "phase s w = Idle"
  with False show ?thesis by (simp add: step_other)
qed

lemma run_phase_finished: "phase s w = Finished \<Longrightarrow> phase (run ag evs s) w = Finished"
proof (induction evs arbitrary: s)
  case Nil
  then show ?case by simp
next
  case (Cons e evs)
  obtain ws ev where e: "e = (ws, ev)" by (cases e)
  from Cons.prems have "phase (handler_step ag ws ev s) w = Finished" by (rule step_phase_finished)
  then show ?case unfolding e run.simps by (rule Cons.IH)
qed

lemma step_open_stays: "is_open (phase s w) \<Longrightarrow> phase (handler_step ag ws ev s) w \<noteq> Idle"
proof (cases "w = ws")
  case False
  assume "is_open (phase s w)"
  with False show ?thesis by (simp add: step_other is_open_def)
next
  case True
  assume o: "is_open (phase s w)"
  show ?thesis
  proof (cases "phase s ws = Receiving \<and> (\<exists>m. ev = Message m)")
    case True
    then obtain m where ev: "ev = Message m" and ph: "phase s ws = Receiving" by blast
    have st: "handler_step ag ws ev s = on_message ag ws m s"
      using ev ph by (simp add: handler_step_def)
    from on_message_phase_self [of ag ws m s] ph \<open>w = ws\<close> show ?thesis by (auto simp: st)
  next
    case False
    with o \<open>w = ws\<close> show ?thesis
      by (cases "phase s ws"; cases ev; simp add: handler_step_def is_open_def)
  qed
qed

lemma removals_count:
  "dom (CONNECTIONS s) = {w. is_open (phase s w)}
   \<Longrightarrow> removals ag w evs s = (if phase s w \<noteq> Finished \<and> phase (run ag evs s) w = Finished then 1 else 0)"
proof (induction evs arbitrary: s)
  case Nil
  then show ?case by simp
next
  case (Cons e evs)
  obtain ws ev where e: "e = (ws, ev)" by (cases e)
  let ?s' = "handler_step ag ws ev s"
  have inv': "dom (CONNECTIONS ?s') = {w. is_open (phase ?s' w)}"
    using Cons.prems by (rule step_conn_inv)
  have IH: "removals ag w evs ?s' = (if phase ?s' w \<noteq> Finished \<and> phase (run ag evs ?s') w = Finished then 1 else 0)"
    using inv' by (rule Cons.IH)
  have mem: "w \<in> dom (CONNECTIONS s) \<longleftrightarrow> is_open (phase s w)"
    "w \<in> dom (CONNECTIONS ?s') \<longleftrightarrow> is_open (phase ?s' w)"
    using Cons.prems inv' by auto
  show ?case
  proof (cases "phase s w = Finished")
    case True
    then have "phase ?s' w = Finished" by (rule step_phase_finished)
    with True IH show ?thesis unfolding e removals.simps mem by (simp add: is_open_def)
  next
    case nf: False
    show ?thesis
    proof (cases "is_open (phase s w)")
      case True
      then have ni: "phase ?s' w \<noteq> Idle" by (rule step_open_stays)
      show ?thesis
      proof (cases "phase ?s' w = Finished")
        case True
        then have "phase (run ag evs ?s') w = Finished" by (rule run_phase_finished)
        with True nf \<open>is_open (phase s w)\<close> IH show ?thesis
          unfolding e removals.simps mem by (simp add: is_open_def)
      next
        case False
        with ni have "is_open (phase ?s' w)" by (simp add: is_open_def)
        with False nf \<open>is_open (phase s w)\<close> IH show ?thesis
          unfolding e removals.simps mem by simp
      qed
    next
      case False
      with nf have "phase s w = Idle" by (simp add: is_open_def)
      then have "phase ?s' w \<noteq> Finished" by (rule step_idle_not_finished)
      with False nf IH show ?thesis unfolding e removals.simps mem by simp
    qed
  qed
qed

lemma init_conn_inv: "dom (CONNECTIONS init_server) = {w. is_open (phase init_server w)}"
  by (simp add: init_server_def is_open_def)


text \<open>
  C9. In every run of the server and for every socket: the first \<open>await\<close> of a handler
  is the send of the system frame, whose text is \<open>Connected to DataGen agent\<close> and the
  rocket U+1F680; nothing is delivered before it (the outbox is empty while the handler
  has not started or is still sending it), it is the first frame delivered, no later
  frame is a system frame, and a handler past the greeting has delivered it. And for a
  connection whose first message is \<open>{"text":"hi"}\<close> with a successful agent call,
  the outbox is then the system frame and one agent frame with the reply, and the history
  is the user turn \<open>hi\<close> followed by the reply.
\<close>

theorem greeting_then_first_exchange:
  \<open>(outbox (run ag evs init_server) ws = []
      \<or> hd (outbox (run ag evs init_server) ws) = system_frame
         \<and> system_frame \<notin> set (tl (outbox (run ag evs init_server) ws)))
   \<and> (phase (run ag evs init_server) ws = Idle \<or> phase (run ag evs init_server) ws = Greeting
        \<longrightarrow> outbox (run ag evs init_server) ws = [])
   \<and> (is_open (phase (run ag evs init_server) ws) \<and> phase (run ag evs init_server) ws \<noteq> Greeting
        \<longrightarrow> outbox (run ag evs init_server) ws \<noteq> [])
   \<and> phase (handler_step ag ws Connect init_server) ws = Greeting
   \<and> system_frame = json_dumps (JObject [(ascii ''type'', JString (ascii ''system'')),
         (ascii ''text'', JString (ascii ''Connected to DataGen agent '' @ [128640]))])
   \<and> (\<forall>msgs. ag 0 [HumanMessage (ascii ''hi'' @ 10 # ascii '' /no_think'')] = Inr msgs \<and> msgs \<noteq> []
        \<longrightarrow> outbox (run ag [(ws, Connect), (ws, Sent), (ws, Message (ascii ''{"text":"hi"}'')), (ws, Sent)]
                 init_server) ws
              = [system_frame, json_dumps (JObject [(ascii ''type'', JString (ascii ''agent'')),
                                  (ascii ''text'', JString (content (last msgs)))])]
          \<and> history (run ag [(ws, Connect), (ws, Sent), (ws, Message (ascii ''{"text":"hi"}'')), (ws, Sent)]
                 init_server) ws
              = [HumanMessage (ascii ''hi''), last msgs])\<close>
proof -
  have inv: "greeting_inv (run ag evs init_server) ws"
    using init_greeting_inv by (rule run_greeting_inv)
  have c: "phase (handler_step ag ws Connect init_server) ws = Greeting"
    by (simp add: handler_step_def init_server_def)
  have e2e: \<open>outbox (run ag [(ws, Connect), (ws, Sent), (ws, Message (ascii ''{"text":"hi"}'')), (ws, Sent)]
                 init_server) ws
              = [system_frame, json_dumps (JObject [(ascii ''type'', JString (ascii ''agent'')),
                                  (ascii ''text'', JString (content (last msgs)))])]
          \<and> history (run ag [(ws, Connect), (ws, Sent), (ws, Message (ascii ''{"text":"hi"}'')), (ws, Sent)]
                 init_server) ws
              = [HumanMessage (ascii ''hi''), last msgs]\<close>
    if a: "ag 0 [HumanMessage (ascii ''hi'' @ 10 # ascii '' /no_think'')] = Inr msgs" and ne: "msgs \<noteq> []"
    for msgs
  proof -
    let ?s = "handler_step ag ws Sent (handler_step ag ws Connect init_server)"
    let ?f = "agent_frame (content (last msgs))"
    let ?s1 = \<open>handler_step ag ws (Message (ascii ''{"text":"hi"}'')) ?s\<close>
    have m: "map_of [(ascii ''text'', JString (ascii ''hi''))] (ascii ''text'') = Some (JString (ascii ''hi''))"
      by simp
    have sn: "strip (ascii ''hi'') \<noteq> []" unfolding strip_hi by (simp add: ascii_def)
    have s1: "?s1 = goto ws (Replying ?f) (extend_history ws [HumanMessage (ascii ''hi''), last msgs]
        (?s\<lparr>invocations := invocations ?s @ [history ?s ws @ [HumanMessage (ascii ''hi'' @ 10 # ascii '' /no_think'')]]\<rparr>))"
      using a ne
      by (simp add: step_message [OF greeted_state(1)] on_message_valid [OF loads_hi m sn] strip_hi
            greeted_state Let_def)
    have p1: "phase ?s1 ws = Replying ?f" and o1: "outbox ?s1 ws = [system_frame]"
      and h1: "history ?s1 ws = [HumanMessage (ascii ''hi''), last msgs]"
      by (simp_all add: s1 greeted_state)
    have s2: "handler_step ag ws Sent ?s1 = deliver ws ?f ?s1"
      using p1 by (rule step_sent_replying)
    have "outbox (handler_step ag ws Sent ?s1) ws = [system_frame, ?f]"
      and "history (handler_step ag ws Sent ?s1) ws = [HumanMessage (ascii ''hi''), last msgs]"
      by (simp_all add: s2 o1 h1)
    then show ?thesis by (simp add: agent_frame_def envelope_def)
  qed
  from inv c e2e system_frame_eq show ?thesis
    unfolding greeting_inv_def greeted_once_def by blast
qed

theorem greeting_then_first_exchange_witness:
  \<open>outbox (run reply_agent [(0::nat, Connect), (0, Sent), (0, Message (ascii ''{"text":"hi"}'')), (0, Sent)]
       init_server) 0
     = [system_frame, json_dumps (JObject [(ascii ''type'', JString (ascii ''agent'')),
                          (ascii ''text'', JString (ascii ''hello''))])]
   \<and> history (run reply_agent [(0::nat, Connect), (0, Sent), (0, Message (ascii ''{"text":"hi"}'')), (0, Sent)]
       init_server) 0
     = [HumanMessage (ascii ''hi''), AIMessage (ascii ''hello'')]\<close>
proof -
  have a: "reply_agent 0 [HumanMessage (ascii ''hi'' @ 10 # ascii '' /no_think'')]
      = Inr ([HumanMessage (ascii ''hi'' @ 10 # ascii '' /no_think'')] @ [AIMessage (ascii ''hello'')])"
    by (simp add: reply_agent_def)
  have ne: "[HumanMessage (ascii ''hi'' @ 10 # ascii '' /no_think'')] @ [AIMessage (ascii ''hello'')] \<noteq> []"
    by simp
  from greeting_then_first_exchange [of reply_agent "[]" "0::nat"] a ne
  have \<open>outbox (run reply_agent [(0::nat, Connect), (0, Sent), (0, Message (ascii ''{"text":"hi"}'')), (0, Sent)]
                 init_server) 0
              = [system_frame, json_dumps (JObject [(ascii ''type'', JString (ascii ''agent'')),
                  (ascii ''text'', JString (content (last ([HumanMessage (ascii ''hi'' @ 10 # ascii '' /no_think'')] @ [AIMessage (ascii ''hello'')]))))])]
          \<and> history (run reply_agent [(0::nat, Connect), (0, Sent), (0, Message (ascii ''{"text":"hi"}'')), (0, Sent)]
                 init_server) 0
              = [HumanMessage (ascii ''hi''), last ([HumanMessage (ascii ''hi'' @ 10 # ascii '' /no_think'')] @ [AIMessage (ascii ''hello'')])]\<close>
    by blast
  then show ?thesis by simp
qed

text \<open>
  C4. In every state the server can reach, the keys of \<open>CONNECTIONS\<close> are exactly the
  sockets whose handler is open (registered and not yet through its \<open>finally\<close>), so
  the two counts agree; over a whole run the entry of a socket is removed once if its
  handler has finished and never otherwise; the entry is created by the step that opens
  the connection; and a handler cancelled while it sends the reply or the error frame
  of a message still removes its entry.
\<close>

theorem connections_match_open_handlers:
  "dom (CONNECTIONS (run ag evs init_server)) = {w. is_open (phase (run ag evs init_server) w)}
   \<and> card (dom (CONNECTIONS (run ag evs init_server))) = card {w. is_open (phase (run ag evs init_server) w)}
   \<and> removals ag ws evs init_server = (if phase (run ag evs init_server) ws = Finished then 1 else 0)
   \<and> (phase s ws = Idle \<longrightarrow>
         CONNECTIONS (handler_step ag ws Connect s) ws = Some []
         \<and> is_open (phase (handler_step ag ws Connect s) ws))
   \<and> (phase s ws = Replying f \<or> phase s ws = Reporting f \<longrightarrow>
         CONNECTIONS (handler_step ag ws Cancelled s) ws = None
         \<and> phase (handler_step ag ws Cancelled s) ws = Finished)"
proof -
  have d: "dom (CONNECTIONS (run ag evs init_server)) = {w. is_open (phase (run ag evs init_server) w)}"
    using init_conn_inv by (rule run_conn_inv)
  have r: "removals ag ws evs init_server = (if phase (run ag evs init_server) ws = Finished then 1 else 0)"
    using removals_count [OF init_conn_inv, of ag ws evs] by (simp add: init_server_def)
  have o: "CONNECTIONS (handler_step ag ws Connect s) ws = Some [] \<and> is_open (phase (handler_step ag ws Connect s) ws)"
    if "phase s ws = Idle"
    using that by (simp add: handler_step_def is_open_def)
  have c: "CONNECTIONS (handler_step ag ws Cancelled s) ws = None \<and> phase (handler_step ag ws Cancelled s) ws = Finished"
    if "phase s ws = Replying f \<or> phase s ws = Reporting f"
    using that by (auto simp: handler_step_def)
  from d r o c show ?thesis by simp
qed

theorem connections_match_open_handlers_witness:
  "dom (CONNECTIONS (run reply_agent [(0::nat, Connect), (1, Connect), (1, Sent), (1, Closed), (0, Sent)] init_server))
     = {0}
   \<and> removals reply_agent (1::nat) [(0, Connect), (1, Connect), (1, Sent), (1, Closed), (0, Sent)] init_server = 1
   \<and> removals reply_agent (0::nat) [(0, Connect), (1, Connect), (1, Sent), (1, Closed), (0, Sent)] init_server = 0
   \<and> CONNECTIONS (handler_step reply_agent (0::nat) Connect init_server) 0 = Some []
   \<and> CONNECTIONS (handler_step reply_agent (0::nat) Cancelled
        (goto 0 (Replying (agent_frame (ascii ''hello''))) (handler_step reply_agent 0 Connect init_server))) 0 = None"
proof -
  let ?evs = "[(0::nat, Connect), (1, Connect), (1, Sent), (1, Closed), (0, Sent)]"
  have ph: "phase (run reply_agent ?evs init_server) = (\<lambda>_. Idle)(0 := Receiving, 1 := Finished)"
    by (simp add: handler_step_def init_server_def goto_def deliver_def cleanup_def fun_eq_iff)
  have i: "phase (init_server :: nat server) 0 = Idle" by (simp add: init_server_def)
  have p: "phase (goto (0::nat) (Replying (agent_frame (ascii ''hello''))) (handler_step reply_agent 0 Connect init_server)) 0
      = Replying (agent_frame (ascii ''hello'')) \<or>
     phase (goto (0::nat) (Replying (agent_frame (ascii ''hello''))) (handler_step reply_agent 0 Connect init_server)) 0
      = Reporting (agent_frame (ascii ''hello''))"
    by simp
  have op: "{w. is_open (((\<lambda>_. Idle)(0 := Receiving, 1 := Finished)) w)} = {0::nat}"
    by (auto simp: is_open_def)
  note A = connections_match_open_handlers [where ag = reply_agent and evs = ?evs and ws = 1 and s = init_server]
  note B = connections_match_open_handlers [where ag = reply_agent and evs = ?evs and ws = 0 and s = init_server]
  note C = connections_match_open_handlers [where ag = reply_agent and evs = ?evs and ws = 0
       and s = "goto 0 (Replying (agent_frame (ascii ''hello''))) (handler_step reply_agent 0 Connect init_server)"
       and f = "agent_frame (ascii ''hello'')"]
  from A have "dom (CONNECTIONS (run reply_agent ?evs init_server))
      = {w. is_open (phase (run reply_agent ?evs init_server) w)}"
    by (rule conjunct1)
  then have d: "dom (CONNECTIONS (run reply_agent ?evs init_server)) = {0}"
    unfolding ph op .
  from A have "removals reply_agent 1 ?evs init_server
      = (if phase (run reply_agent ?evs init_server) 1 = Finished then 1 else 0)"
    by blast
  then have r1: "removals reply_agent 1 ?evs init_server = 1"
    unfolding ph by simp
  from B have "removals reply_agent 0 ?evs init_server
      = (if phase (run reply_agent ?evs init_server) 0 = Finished then 1 else 0)"
    by blast
  then have r0: "removals reply_agent 0 ?evs init_server = 0"
    unfolding ph by simp
  from B i have c4: "CONNECTIONS (handler_step reply_agent (0::nat) Connect init_server) 0 = Some []"
    by blast
  from C p have c5: "CONNECTIONS (handler_step reply_agent (0::nat) Cancelled
        (goto 0 (Replying (agent_frame (ascii ''hello''))) (handler_step reply_agent 0 Connect init_server))) 0 = None"
    by blast
  from d r1 r0 c4 c5 show ?thesis by blast
qed

end
